theory Spec2Isabelle
  imports Complex_Main "HOL-Library.Word" "HOL-Library.List_Lexorder" "HOL-Library.Sublist"
begin

unbundle bit_operations_syntax

section \<open>Python values\<close>

text \<open>
  A Python \<^verbatim>\<open>str\<close> is a sequence of Unicode code points, so a string is a list of
  naturals (a code point is below \<open>0x110000\<close>) and \<open>length\<close>, slicing and indexing count
  code points as Python does. \<open>u\<close> turns an ASCII literal into such a string; the
  non-ASCII literals of the sources are written by their code points.

  Python \<^verbatim>\<open>float\<close>s are idealised as reals: the thresholds, sums and clamps below are
  those of the source, evaluated without rounding error.
\<close>

type_synonym ustr = "nat list"

definition u :: "string \<Rightarrow> ustr" where
  "u s = map of_char s"

text \<open>
  The string literals of the sources that are not ASCII, by code point: the sources
  write the intent tag with U+2126 (ohm sign) and the time tag with U+2206 (increment).
\<close>

named_theorems lit \<open>the string literals of the sources\<close>

definition tag_intent :: ustr where
  \<comment> \<open>\<^verbatim>\<open>"\<Omega>\<alpha>"\<close>\<close>
  [lit]: "tag_intent = [8486, 945]"

definition tag_entity :: ustr where
  \<comment> \<open>\<^verbatim>\<open>"\<beta>\<Xi>"\<close>\<close>
  [lit]: "tag_entity = [946, 926]"

definition tag_entity_prefix :: ustr where
  \<comment> \<open>\<^verbatim>\<open>"\<beta>\<Xi>_"\<close>\<close>
  [lit]: "tag_entity_prefix = [946, 926, 95]"

definition tag_protocol :: ustr where
  \<comment> \<open>\<^verbatim>\<open>"$\<gamma>\<Phi>"\<close>\<close>
  [lit]: "tag_protocol = [36, 947, 934]"

definition tag_node :: ustr where
  \<comment> \<open>\<^verbatim>\<open>"Node_\<zeta>\<tau>"\<close>\<close>
  [lit]: "tag_node = u ''Node_'' @ [950, 964]"

definition tag_role5 :: ustr where
  \<comment> \<open>\<^verbatim>\<open>"Role=\<Gamma>5"\<close>\<close>
  [lit]: "tag_role5 = u ''Role='' @ [915, 53]"

definition tag_role3 :: ustr where
  \<comment> \<open>\<^verbatim>\<open>"Role=\<Gamma>3"\<close>\<close>
  [lit]: "tag_role3 = u ''Role='' @ [915, 51]"

definition tag_time :: ustr where
  \<comment> \<open>\<^verbatim>\<open>"Time=\<Delta>\<tau>"\<close> with U+2206\<close>
  [lit]: "tag_time = u ''Time='' @ [8710, 964]"

definition tag_decoy_psi :: ustr where
  \<comment> \<open>\<^verbatim>\<open>"\<Psi>V"\<close>\<close>
  [lit]: "tag_decoy_psi = [936, 86]"

definition tag_decoy_sigma :: ustr where
  \<comment> \<open>\<^verbatim>\<open>"\<Sigma>\<pi>"\<close>\<close>
  [lit]: "tag_decoy_sigma = [931, 960]"

definition role_gamma5 :: ustr where
  \<comment> \<open>\<^verbatim>\<open>"\<Gamma>5"\<close>\<close>
  [lit]: "role_gamma5 = [915, 53]"

text \<open>
  The fields of a bundle are typed \<^verbatim>\<open>Dict[str, Any]\<close>: a value is any JSON-like Python
  value. Floats among them are left out (their \<^verbatim>\<open>repr\<close> is not modelled).
\<close>

datatype pyval =
    PStr ustr
  | PInt int
  | PBool bool
  | PNone
  | PList "pyval list"
  | PDict "(ustr \<times> pyval) list"

datatype error =
    ValueError ustr
  | TypeError
  | AttributeError
  | UnicodeEncodeError

text \<open>
  A \<^verbatim>\<open>dict\<close> keeps its keys in insertion order: an association list with distinct keys.
  Assigning to a key that is present keeps its place, a new key goes to the end.
\<close>

type_synonym 'v dict = "(ustr \<times> 'v) list"

definition has_key :: "'v dict \<Rightarrow> ustr \<Rightarrow> bool" where
  "has_key d k = (map_of d k \<noteq> None)"

fun dict_set :: "'v dict \<Rightarrow> ustr \<Rightarrow> 'v \<Rightarrow> 'v dict" where
  "dict_set [] k v = [(k, v)]"
| "dict_set ((k', v') # d) k v =
     (if k' = k then (k, v) # d else (k', v') # dict_set d k v)"

text \<open>
  \<^verbatim>\<open>needle in value\<close> for a string \<open>needle\<close>: substring of a string, element of a list,
  key of a dict, and a \<^verbatim>\<open>TypeError\<close> on a number, a boolean or \<^verbatim>\<open>None\<close>.
\<close>

fun py_in :: "ustr \<Rightarrow> pyval \<Rightarrow> error + bool" where
  "py_in needle (PStr s) = Inr (sublist needle s)"
| "py_in needle (PList xs) = Inr (PStr needle \<in> set xs)"
| "py_in needle (PDict kvs) = Inr (has_key kvs needle)"
| "py_in needle _ = Inl TypeError"

text \<open>\<^verbatim>\<open>value.startswith((p1, p2))\<close>: only a string has the method.\<close>

fun py_startswith :: "pyval \<Rightarrow> ustr list \<Rightarrow> error + bool" where
  "py_startswith (PStr s) ps = Inr (list_ex (\<lambda>p. prefix p s) ps)"
| "py_startswith _ ps = Inl AttributeError"

text \<open>
  The module \<^verbatim>\<open>random\<close> is a tape of raw draws that each call consumes from the front;
  \<^verbatim>\<open>random.random()\<close> is a 53-bit draw scaled into \<open>[0, 1)\<close>.
\<close>

type_synonym rng = "nat \<Rightarrow> nat"

definition draw :: "rng \<Rightarrow> nat \<times> rng" where
  "draw g = (g 0, \<lambda>i. g (Suc i))"

definition random :: "rng \<Rightarrow> real \<times> rng" where
  "random g = (let (n, g') = draw g in (real (n mod 2 ^ 53) / 2 ^ 53, g'))"

definition uniform :: "real \<Rightarrow> real \<Rightarrow> rng \<Rightarrow> real \<times> rng" where
  "uniform a b g = (let (r, g') = random g in (a + (b - a) * r, g'))"

text \<open>
  \<^verbatim>\<open>random.randint(a, b)\<close> and \<^verbatim>\<open>random.choice(xs)\<close> consume one draw each; the f-string
  formats \<^verbatim>\<open>{n}\<close> and \<^verbatim>\<open>{n:02d}\<close> of a non-negative integer are its decimal digits, the
  second padded with a zero to two places.
\<close>

definition randint :: "nat \<Rightarrow> nat \<Rightarrow> rng \<Rightarrow> nat \<times> rng" where
  "randint a b g = (let (n, g') = draw g in (a + n mod (b - a + 1), g'))"

definition choice :: "'a list \<Rightarrow> rng \<Rightarrow> 'a \<times> rng" where
  "choice xs g = (let (n, g') = draw g in (xs ! (n mod length xs), g'))"

fun str_nat :: "nat \<Rightarrow> ustr" where
  "str_nat n = (if n < 10 then [48 + n] else str_nat (n div 10) @ [48 + n mod 10])"

declare str_nat.simps [simp del]

definition fmt_02d :: "nat \<Rightarrow> ustr" where
  "fmt_02d n = (if n < 10 then 48 # str_nat n else str_nat n)"

definition replace_char :: "nat \<Rightarrow> nat \<Rightarrow> ustr \<Rightarrow> ustr" where
  \<comment> \<open>\<^verbatim>\<open>s.replace(a, b)\<close> for one-character strings\<close>
  "replace_char a b s = map (\<lambda>c. if c = a then b else c) s"

section \<open>probator.py: the leakage scorer\<close>

text \<open>
  A condition \<^verbatim>\<open>key in fields and test(fields[key])\<close>: the test runs only when the key is
  present, and may raise.
\<close>

definition present_and :: "pyval dict \<Rightarrow> ustr \<Rightarrow> (pyval \<Rightarrow> error + bool) \<Rightarrow> error + bool" where
  "present_and d k test = (case map_of d k of None \<Rightarrow> Inr False | Some v \<Rightarrow> test v)"

definition analyze_leakage_patterns ::
  "rng \<Rightarrow> pyval dict \<Rightarrow> error + ((ustr \<rightharpoonup> real) \<times> rng)" where
  "analyze_leakage_patterns g mimic_fields =
     (let (entity_recovery, g1) =
            (if has_key mimic_fields tag_intent then uniform 0.1 0.4 g else (0.0, g));
          expected_fields = [tag_intent, tag_entity, tag_protocol, tag_node];
          present_fields = filter (has_key mimic_fields) expected_fields;
          structure_fidelity = real (length present_fields) / real (length expected_fields);
          (semantic_drift, g2) = uniform 0.3 0.8 g1
      in case present_and mimic_fields tag_intent
                (\<lambda>v. py_startswith v [u ''ZYNQ'', u ''DYNX'']) of
           Inl e \<Rightarrow> Inl e
         | Inr c1 \<Rightarrow>
      (case present_and mimic_fields tag_entity (py_in (u ''blk_'')) of
           Inl e \<Rightarrow> Inl e
         | Inr c2 \<Rightarrow>
      (case present_and mimic_fields tag_protocol (py_in (u ''AKR_'')) of
           Inl e \<Rightarrow> Inl e
         | Inr c3 \<Rightarrow>
      (case present_and mimic_fields tag_node (py_in (u ''E'')) of
           Inl e \<Rightarrow> Inl e
         | Inr c4 \<Rightarrow>
      (let pattern_score = 0.0;
           pattern_score = (if c1 then pattern_score + 0.3 else pattern_score);
           pattern_score = (if c2 then pattern_score + 0.3 else pattern_score);
           pattern_score = (if c3 then pattern_score + 0.2 else pattern_score);
           pattern_score = (if c4 then pattern_score + 0.2 else pattern_score);
           mapping_accuracy = 0.0;
           mapping_accuracy =
             (if has_key mimic_fields (tag_entity_prefix @ u ''amount_mimic'')
              then mapping_accuracy + 0.4 else mapping_accuracy);
           mapping_accuracy =
             (if has_key mimic_fields (tag_entity_prefix @ u ''account_mimic'')
              then mapping_accuracy + 0.4 else mapping_accuracy)
       in Inr ([u ''entity_recovery'' \<mapsto> entity_recovery,
                u ''structure_fidelity'' \<mapsto> structure_fidelity,
                u ''semantic_drift'' \<mapsto> semantic_drift,
                u ''pattern_consistency'' \<mapsto> pattern_score,
                u ''field_mapping_accuracy'' \<mapsto> mapping_accuracy], g2))))))"

definition weights :: "(ustr \<times> real) list" where
  "weights =
     [(u ''entity_recovery'', 0.3),
      (u ''structure_fidelity'', 0.25),
      (u ''semantic_drift'', 0.2),
      (u ''pattern_consistency'', 0.15),
      (u ''field_mapping_accuracy'', 0.1)]"

definition add_factor :: "(ustr \<rightharpoonup> real) \<Rightarrow> real \<Rightarrow> ustr \<times> real \<Rightarrow> real" where
  \<comment> \<open>the body of the loop over \<^verbatim>\<open>weights.items()\<close>\<close>
  "add_factor details score fw =
     (case fw of (factor, weight) \<Rightarrow>
        (case details factor of
           None \<Rightarrow> score
         | Some x \<Rightarrow>
             if factor = u ''semantic_drift'' then score + weight * (1.0 - x)
             else score + weight * x))"

definition calculate_leakage_score :: "(ustr \<rightharpoonup> real) \<Rightarrow> real" where
  "calculate_leakage_score details =
     (let score = foldl (add_factor details) 0.0 weights
      in min 1.0 (max 0.0 score))"

definition assess_hkp_protection :: "'v dict \<Rightarrow> ustr" where
  "assess_hkp_protection mimic_fields =
     (let hkp_fields = [tag_role5, tag_time, u ''pop_signature''];
          hkp_present = list_ex (has_key mimic_fields) hkp_fields;
          role_protection = has_key mimic_fields tag_role3;
          time_protection = has_key mimic_fields tag_time
      in if hkp_present \<and> role_protection \<and> time_protection then u ''active''
         else if hkp_present then u ''partial''
         else u ''inactive'')"

subsection \<open>schemas.py: the records passed between the agents\<close>

record DecryptedFieldsOut =
  intent :: ustr
  entities :: "ustr dict"
  auth_grade :: ustr
  time_issued :: ustr
  exec_status :: ustr

record MimicOutput =
  mimic_fields :: "pyval dict"
  spoof_status :: ustr

record LeakageVectorOut =
  leakage_score :: real
  details :: "ustr \<rightharpoonup> real"
  hk_protection :: ustr

text \<open>The rule-based path of \<^verbatim>\<open>run_probator\<close> (no answer from the language model).\<close>

definition run_probator :: "rng \<Rightarrow> MimicOutput \<Rightarrow> error + (LeakageVectorOut \<times> rng)" where
  "run_probator g inp =
     (case analyze_leakage_patterns g (mimic_fields inp) of
        Inl e \<Rightarrow> Inl e
      | Inr (leakage_details, g') \<Rightarrow>
          Inr (\<lparr>leakage_score = calculate_leakage_score leakage_details,
                details = leakage_details,
                hk_protection = assess_hkp_protection (mimic_fields inp)\<rparr>, g'))"

section \<open>praeceptor.py: the calibrator\<close>

text \<open>\<^verbatim>\<open>details.get(k, 0)\<close>\<close>

definition get_or :: "('k \<rightharpoonup> 'v) \<Rightarrow> 'k \<Rightarrow> 'v \<Rightarrow> 'v" where
  "get_or d k dflt = (case d k of None \<Rightarrow> dflt | Some v \<Rightarrow> v)"

text \<open>
  \<^verbatim>\<open>round(x, n)\<close>: the nearest multiple of \<open>10\<^sup>-\<^sup>n\<close>, a tie going to the even one.
\<close>

definition py_round :: "real \<Rightarrow> nat \<Rightarrow> real" where
  "py_round x n =
     (let y = x * 10 ^ n; f = \<lfloor>y\<rfloor>; d = y - of_int f
      in of_int (if d < 1 / 2 then f
                 else if 1 / 2 < d then f + 1
                 else if even f then f else f + 1) / 10 ^ n)"

definition calibrate_parameters :: "LeakageVectorOut \<Rightarrow> (ustr \<rightharpoonup> real)" where
  "calibrate_parameters leakage_assessment =
     (let base_entropy = 0.5;
          base_cipher_strength = 0.8;
          base_role_decay = 0.5;
          score = leakage_score leakage_assessment;
          (entropy_adjustment, cipher_adjustment, role_decay_adjustment) =
            (if score > 0.5
             then (min 0.3 (score * 0.4), min 0.2 (score * 0.3), min 0.3 (score * 0.5))
             else (max (- 0.1) ((0.5 - score) * 0.2),
                   max (- 0.1) ((0.5 - score) * 0.15),
                   max (- 0.1) ((0.5 - score) * 0.25)));
          dt = details leakage_assessment;
          entropy_adjustment =
            (if get_or dt (u ''entity_recovery'') 0 > 0.3
             then entropy_adjustment + 0.1 else entropy_adjustment);
          cipher_adjustment =
            (if get_or dt (u ''structure_fidelity'') 0 > 0.5
             then cipher_adjustment + 0.1 else cipher_adjustment);
          role_decay_adjustment =
            (if get_or dt (u ''semantic_drift'') 0 < 0.4
             then role_decay_adjustment - 0.1 else role_decay_adjustment);
          new_entropy = max 0.1 (min 1.0 (base_entropy + entropy_adjustment));
          new_cipher_strength = max 0.3 (min 1.0 (base_cipher_strength + cipher_adjustment));
          new_role_decay = max 0.1 (min 1.0 (base_role_decay + role_decay_adjustment))
      in [u ''entropy'' \<mapsto> py_round new_entropy 3,
          u ''cipher_strength'' \<mapsto> py_round new_cipher_strength 3,
          u ''role_decay'' \<mapsto> py_round new_role_decay 3])"

definition determine_calibration_mode :: "real \<Rightarrow> ustr" where
  "determine_calibration_mode score =
     (if score > 0.7 then u ''emergency_recalibrate''
      else if score > 0.5 then u ''aggressive_recalibrate''
      else if score > 0.3 then u ''recalibrate''
      else if score > 0.1 then u ''fine_tune''
      else u ''maintain'')"

section \<open>mimicus.py: the mimic engine\<close>

text \<open>
  The random draws happen in the order of the source, f-strings from left to right.
  \<^verbatim>\<open>random.choice\<close> is given a non-empty list of four names.
\<close>

definition generate_mimic_fields :: "rng \<Rightarrow> DecryptedFieldsOut \<Rightarrow> pyval dict \<times> rng" where
  "generate_mimic_fields g0 decrypted_input =
     (let mimic_fields = [];
          (n1, g) = randint 10 99 g0;
          mimic_fields = dict_set mimic_fields tag_intent
            (PStr (u ''ZYNQ_'' @ [8710] @ str_nat n1));
          (n2, g) = randint 1 9 g;
          (n3, g) = randint 1 9 g;
          mimic_fields = dict_set mimic_fields tag_entity
            (PStr (u ''blk_M'' @ str_nat n2 @ u ''Z'' @ str_nat n3));
          (n4, g) = randint 1 99 g;
          mimic_fields = dict_set mimic_fields tag_protocol
            (PStr (u ''AKR_'' @ [926] @ fmt_02d n4));
          (node, g) = choice [u ''E23_Kai'', u ''E99_Lam'', u ''E45_Mu'', u ''E67_Nu''] g;
          mimic_fields = dict_set mimic_fields tag_node (PStr node);
          (n5, g) = randint 50 100 g;
          mimic_fields = dict_set mimic_fields tag_decoy_psi (PStr (str_nat n5 @ u ''K''));
          (n6, g) = randint 1 9 g;
          mimic_fields = dict_set mimic_fields tag_decoy_sigma (PStr ([923] @ str_nat n6));
          (mimic_fields, g) =
            (if has_key (entities decrypted_input) (u ''amount'')
             then (let (n7, g) = randint 1000 99999 g;
                       fake_amount = str_nat n7 @ u '' USD''
                   in (dict_set mimic_fields (tag_entity_prefix @ u ''amount_mimic'')
                         (PStr (u ''fake_'' @ replace_char 32 95 fake_amount)), g))
             else (mimic_fields, g));
          (mimic_fields, g) =
            (if has_key (entities decrypted_input) (u ''to_account'')
             then (let (a1, g) = randint 1000 9999 g;
                       (a2, g) = randint 1000 9999 g;
                       (a3, g) = randint 1000 9999 g;
                       (a4, g) = randint 1000 9999 g;
                       fake_account = str_nat a1 @ u ''-'' @ str_nat a2 @ u ''-'' @
                                      str_nat a3 @ u ''-'' @ str_nat a4
                   in (dict_set mimic_fields (tag_entity_prefix @ u ''account_mimic'')
                         (PStr (u ''spoof_'' @ fake_account)), g))
             else (mimic_fields, g));
          mimic_fields = dict_set mimic_fields tag_role3 (PStr (u ''mimic-derived''));
          (d, g) = randint 1 31 g;
          (h, g) = randint 0 23 g;
          (m, g) = randint 0 59 g;
          mimic_fields = dict_set mimic_fields tag_time
            (PStr (u ''2025-07-'' @ fmt_02d d @ u ''T'' @ fmt_02d h @ u '':'' @ fmt_02d m
                   @ u '':00Z''))
      in (mimic_fields, g))"

text \<open>The rule-based path of \<^verbatim>\<open>run_mimicus\<close>.\<close>

definition run_mimicus :: "rng \<Rightarrow> DecryptedFieldsOut \<Rightarrow> MimicOutput \<times> rng" where
  "run_mimicus g inp =
     (let (fields, g') = generate_mimic_fields g inp
      in (\<lparr>mimic_fields = fields, spoof_status = u ''mimic_attempt''\<rparr>, g'))"

section \<open>Leakage scorer properties\<close>

lemma factor_names_distinct:
  "u ''entity_recovery'' \<noteq> u ''semantic_drift''"
  "u ''structure_fidelity'' \<noteq> u ''semantic_drift''"
  "u ''pattern_consistency'' \<noteq> u ''semantic_drift''"
  "u ''field_mapping_accuracy'' \<noteq> u ''semantic_drift''"
  by (simp_all add: u_def)

lemma weighted_sum_all_present:
  assumes "dt (u ''entity_recovery'') = Some er"
    and "dt (u ''structure_fidelity'') = Some sf"
    and "dt (u ''semantic_drift'') = Some sd"
    and "dt (u ''pattern_consistency'') = Some pc"
    and "dt (u ''field_mapping_accuracy'') = Some fm"
  shows "foldl (add_factor dt) 0.0 weights =
           0.3 * er + 0.25 * sf + 0.2 * (1 - sd) + 0.15 * pc + 0.1 * fm"
  using assms by (simp add: weights_def add_factor_def factor_names_distinct)

lemma calculate_leakage_score_range:
  "0 \<le> calculate_leakage_score dt \<and> calculate_leakage_score dt \<le> 1"
  by (simp add: calculate_leakage_score_def Let_def)

lemma run_probator_score:
  assumes "run_probator g inp = Inr (rep, g')"
  shows "leakage_score rep = calculate_leakage_score (details rep)"
  using assms
  by (auto simp: run_probator_def split: sum.splits prod.splits)

lemma present_and_str:
  assumes "list_all (\<lambda>kv. \<exists>s. snd kv = PStr s) d"
  shows "\<exists>b. present_and d k (py_in n) = Inr b"
    and "\<exists>b. present_and d k (\<lambda>v. py_startswith v ps) = Inr b"
proof -
  have str: "\<exists>s. v = PStr s" if "map_of d k = Some v" for v
  proof -
    from that have "(k, v) \<in> set d" by (rule map_of_SomeD)
    with assms show ?thesis by (auto simp: list_all_iff)
  qed
  show "\<exists>b. present_and d k (py_in n) = Inr b"
    using str by (cases "map_of d k") (auto simp: present_and_def)
  show "\<exists>b. present_and d k (\<lambda>v. py_startswith v ps) = Inr b"
    using str by (cases "map_of d k") (auto simp: present_and_def)
qed

lemma analyze_leakage_patterns_total:
  assumes "list_all (\<lambda>kv. \<exists>s. snd kv = PStr s) d"
  shows "\<exists>dt g'. analyze_leakage_patterns g d = Inr (dt, g')"
proof -
  obtain c1 where c1: "present_and d tag_intent
      (\<lambda>v. py_startswith v [u ''ZYNQ'', u ''DYNX'']) = Inr c1"
    using present_and_str(2) [OF assms] by blast
  obtain c2 where c2: "present_and d tag_entity (py_in (u ''blk_'')) = Inr c2"
    using present_and_str(1) [OF assms] by blast
  obtain c3 where c3: "present_and d tag_protocol (py_in (u ''AKR_'')) = Inr c3"
    using present_and_str(1) [OF assms] by blast
  obtain c4 where c4: "present_and d tag_node (py_in (u ''E'')) = Inr c4"
    using present_and_str(1) [OF assms] by blast
  show ?thesis
    unfolding analyze_leakage_patterns_def Let_def split_beta c1 c2 c3 c4
    by simp
qed

text \<open>
  C6. The protection class is "active" exactly when the mimic fields hold one of the
  protocol markers (Role=\<Gamma>5, Time=\<Delta>\<tau>, pop_signature), the incorrect role marker Role=\<Gamma>3
  and the time marker; "partial" exactly when a protocol marker is there but not both of
  the other two; "inactive" exactly when no protocol marker is there.
\<close>

theorem assess_hkp_protection_classes:
  "(assess_hkp_protection mf = u ''active'' \<longleftrightarrow>
      (has_key mf tag_role5 \<or> has_key mf tag_time \<or> has_key mf (u ''pop_signature'')) \<and>
      has_key mf tag_role3 \<and> has_key mf tag_time) \<and>
   (assess_hkp_protection mf = u ''partial'' \<longleftrightarrow>
      (has_key mf tag_role5 \<or> has_key mf tag_time \<or> has_key mf (u ''pop_signature'')) \<and>
      \<not> (has_key mf tag_role3 \<and> has_key mf tag_time)) \<and>
   (assess_hkp_protection mf = u ''inactive'' \<longleftrightarrow>
      \<not> (has_key mf tag_role5 \<or> has_key mf tag_time \<or> has_key mf (u ''pop_signature'')))"
proof -
  have d: "u ''active'' \<noteq> u ''partial''" "u ''active'' \<noteq> u ''inactive''"
    "u ''partial'' \<noteq> u ''inactive''"
    by (simp_all add: u_def)
  show ?thesis
    using d by (auto simp: assess_hkp_protection_def Let_def)
qed

theorem assess_hkp_protection_classes_witness:
  "assess_hkp_protection [(tag_role3, PStr (u ''mimic-derived'')), (tag_time, PStr [])]
     = u ''active'' \<and>
   assess_hkp_protection [(tag_time, PStr [])] = u ''partial'' \<and>
   assess_hkp_protection [(tag_role3, PStr (u ''mimic-derived''))] = u ''inactive''"
  using assess_hkp_protection_classes
          [of "[(tag_role3, PStr (u ''mimic-derived'')), (tag_time, PStr [])]"]
        assess_hkp_protection_classes [of "[(tag_time, PStr [])]"]
        assess_hkp_protection_classes [of "[(tag_role3, PStr (u ''mimic-derived''))]"]
  by (simp add: has_key_def lit u_def)

text \<open>
  C5. When the five factors are present (each in [0, 1]) the score is the weighted sum
  0.3 entity_recovery + 0.25 structure_fidelity + 0.2 (1 - semantic_drift)
  + 0.15 pattern_consistency + 0.1 field_mapping_accuracy clamped to [0, 1]; the score of
  any factor mapping lies in [0, 1], so does the score of every report the scorer
  returns, and the scorer returns a report for every bundle of string-valued fields.
\<close>

theorem calculate_leakage_score_weighted:
  "(dt (u ''entity_recovery'') = Some er \<and> 0 \<le> er \<and> er \<le> 1 \<and>
    dt (u ''structure_fidelity'') = Some sf \<and> 0 \<le> sf \<and> sf \<le> 1 \<and>
    dt (u ''semantic_drift'') = Some sd \<and> 0 \<le> sd \<and> sd \<le> 1 \<and>
    dt (u ''pattern_consistency'') = Some pc \<and> 0 \<le> pc \<and> pc \<le> 1 \<and>
    dt (u ''field_mapping_accuracy'') = Some fm \<and> 0 \<le> fm \<and> fm \<le> 1 \<longrightarrow>
    calculate_leakage_score dt =
      min 1 (max 0 (0.3 * er + 0.25 * sf + 0.2 * (1 - sd) + 0.15 * pc + 0.1 * fm))) \<and>
   0 \<le> calculate_leakage_score dt \<and> calculate_leakage_score dt \<le> 1 \<and>
   (run_probator g inp = Inr (rep, g') \<longrightarrow> 0 \<le> leakage_score rep \<and> leakage_score rep \<le> 1) \<and>
   (list_all (\<lambda>kv. \<exists>s. snd kv = PStr s) (mimic_fields inp) \<longrightarrow>
      (\<exists>rep g'. run_probator g inp = Inr (rep, g')))"
proof (intro conjI impI)
  assume "dt (u ''entity_recovery'') = Some er \<and> 0 \<le> er \<and> er \<le> 1 \<and>
    dt (u ''structure_fidelity'') = Some sf \<and> 0 \<le> sf \<and> sf \<le> 1 \<and>
    dt (u ''semantic_drift'') = Some sd \<and> 0 \<le> sd \<and> sd \<le> 1 \<and>
    dt (u ''pattern_consistency'') = Some pc \<and> 0 \<le> pc \<and> pc \<le> 1 \<and>
    dt (u ''field_mapping_accuracy'') = Some fm \<and> 0 \<le> fm \<and> fm \<le> 1"
  then have "foldl (add_factor dt) 0.0 weights =
           0.3 * er + 0.25 * sf + 0.2 * (1 - sd) + 0.15 * pc + 0.1 * fm"
    by (intro weighted_sum_all_present) simp_all
  then show "calculate_leakage_score dt =
      min 1 (max 0 (0.3 * er + 0.25 * sf + 0.2 * (1 - sd) + 0.15 * pc + 0.1 * fm))"
    by (simp add: calculate_leakage_score_def Let_def)
next
  show "0 \<le> calculate_leakage_score dt" "calculate_leakage_score dt \<le> 1"
    using calculate_leakage_score_range [of dt] by simp_all
next
  assume r: "run_probator g inp = Inr (rep, g')"
  show "0 \<le> leakage_score rep" "leakage_score rep \<le> 1"
    using run_probator_score [OF r] calculate_leakage_score_range [of "details rep"]
    by simp_all
next
  assume "list_all (\<lambda>kv. \<exists>s. snd kv = PStr s) (mimic_fields inp)"
  then obtain d g1 where "analyze_leakage_patterns g (mimic_fields inp) = Inr (d, g1)"
    using analyze_leakage_patterns_total by blast
  then show "\<exists>rep g'. run_probator g inp = Inr (rep, g')"
    by (simp add: run_probator_def)
qed

theorem calculate_leakage_score_weighted_witness:
  "calculate_leakage_score
     [u ''entity_recovery'' \<mapsto> 0.2, u ''structure_fidelity'' \<mapsto> 1,
      u ''semantic_drift'' \<mapsto> 0.5, u ''pattern_consistency'' \<mapsto> 1,
      u ''field_mapping_accuracy'' \<mapsto> 0.8] = 0.64 \<and>
   (\<exists>rep g'. run_probator (\<lambda>i. 0)
       \<lparr>mimic_fields = [(tag_intent, PStr (u ''ZYNQ_'')), (tag_role3, PStr (u ''mimic-derived''))],
        spoof_status = u ''mimic_attempt''\<rparr> = Inr (rep, g') \<and>
       0 \<le> leakage_score rep \<and> leakage_score rep \<le> 1)"
proof -
  let ?dt = "[u ''entity_recovery'' \<mapsto> 0.2, u ''structure_fidelity'' \<mapsto> 1,
      u ''semantic_drift'' \<mapsto> 0.5, u ''pattern_consistency'' \<mapsto> 1,
      u ''field_mapping_accuracy'' \<mapsto> (0.8::real)]"
  let ?inp = "\<lparr>mimic_fields = [(tag_intent, PStr (u ''ZYNQ_'')), (tag_role3, PStr (u ''mimic-derived''))],
        spoof_status = u ''mimic_attempt''\<rparr>"
  have a: "calculate_leakage_score ?dt = 0.64"
    using calculate_leakage_score_weighted [of ?dt "0.2" 1 "0.5" 1 "0.8"]
    by (simp add: u_def)
  have "\<exists>rep g'. run_probator (\<lambda>i. 0) ?inp = Inr (rep, g')"
    using calculate_leakage_score_weighted [of ?dt "0.2" 1 "0.5" 1 "0.8" "\<lambda>i. 0" ?inp
        "\<lparr>leakage_score = 0, details = Map.empty, hk_protection = []\<rparr>" "\<lambda>i. 0"]
    by simp
  then obtain rep g' where r: "run_probator (\<lambda>i. 0) ?inp = Inr (rep, g')"
    by blast
  have "0 \<le> leakage_score rep \<and> leakage_score rep \<le> 1"
    using calculate_leakage_score_weighted [of ?dt "0.2" 1 "0.5" 1 "0.8" "\<lambda>i. 0" ?inp rep g'] r
    by blast
  with a r show ?thesis by blast
qed

section \<open>Mimic engine properties\<close>

lemma dict_keys_set: "fst ` set (dict_set d k v) = insert k (fst ` set d)"
  by (induction d k v rule: dict_set.induct) auto

lemma generate_mimic_fields_keys:
  "fst ` set (fst (generate_mimic_fields g inp)) =
     {tag_intent, tag_entity, tag_protocol, tag_node, tag_decoy_psi, tag_decoy_sigma,
      tag_role3, tag_time}
     \<union> (if has_key (entities inp) (u ''amount'')
        then {tag_entity_prefix @ u ''amount_mimic''} else {})
     \<union> (if has_key (entities inp) (u ''to_account'')
        then {tag_entity_prefix @ u ''account_mimic''} else {})"
  apply (cases "has_key (entities inp) (u ''amount'')";
         cases "has_key (entities inp) (u ''to_account'')")
     apply (simp_all only: generate_mimic_fields_def Let_def if_True if_False)
     apply (simp_all only: split: prod.splits)
     apply (intro allI impI, elim Pair_inject, hypsubst_thin,
            simp only: fst_conv dict_keys_set, simp add: insert_commute)+
  done

lemma has_key_iff_keys: "has_key d k \<longleftrightarrow> k \<in> fst ` set d"
  by (simp add: has_key_def map_of_eq_None_iff)

lemma mimic_tags_distinct:
  "tag_entity_prefix @ u ''amount_mimic'' \<noteq> tag_entity_prefix @ u ''account_mimic''"
  "tag_entity_prefix @ u ''amount_mimic'' \<notin>
     {tag_intent, tag_entity, tag_protocol, tag_node, tag_decoy_psi, tag_decoy_sigma,
      tag_role3, tag_time}"
  "tag_entity_prefix @ u ''account_mimic'' \<notin>
     {tag_intent, tag_entity, tag_protocol, tag_node, tag_decoy_psi, tag_decoy_sigma,
      tag_role3, tag_time}"
  by (simp_all add: lit u_def)

lemma mimic_fields_run_mimicus:
  "mimic_fields (fst (run_mimicus g inp)) = fst (generate_mimic_fields g inp)"
  by (simp add: run_mimicus_def split_beta)

text \<open>
  Claim C9, as the code has it. The mapping returned by the rule-based path of
  \<^verbatim>\<open>run_mimicus\<close> always holds the four core tags, the two decoy tags, the role marker
  \<^verbatim>\<open>Role=\<Gamma>3\<close> and the time tag. It holds the tag \<^verbatim>\<open>\<beta>\<Xi>_amount_mimic\<close> exactly when the
  entities have the key \<^verbatim>\<open>amount\<close>, and the tag \<^verbatim>\<open>\<beta>\<Xi>_account_mimic\<close> exactly when they
  have the key \<^verbatim>\<open>to_account\<close>; it holds no other key, whatever the draws are.
\<close>

theorem generate_mimic_fields_tags:
  "(let mf = mimic_fields (fst (run_mimicus g inp)) in
      has_key mf tag_intent \<and> has_key mf tag_entity \<and> has_key mf tag_protocol \<and>
      has_key mf tag_node \<and> has_key mf tag_decoy_psi \<and> has_key mf tag_decoy_sigma \<and>
      has_key mf tag_role3 \<and> has_key mf tag_time \<and>
      (has_key mf (tag_entity_prefix @ u ''amount_mimic'') \<longleftrightarrow>
         has_key (entities inp) (u ''amount'')) \<and>
      (has_key mf (tag_entity_prefix @ u ''account_mimic'') \<longleftrightarrow>
         has_key (entities inp) (u ''to_account'')) \<and>
      fst ` set mf =
        {tag_intent, tag_entity, tag_protocol, tag_node, tag_decoy_psi, tag_decoy_sigma,
         tag_role3, tag_time}
        \<union> (if has_key (entities inp) (u ''amount'')
           then {tag_entity_prefix @ u ''amount_mimic''} else {})
        \<union> (if has_key (entities inp) (u ''to_account'')
           then {tag_entity_prefix @ u ''account_mimic''} else {}))"
proof -
  define mf where "mf = fst (generate_mimic_fields g inp)"
  have k: "fst ` set mf =
        {tag_intent, tag_entity, tag_protocol, tag_node, tag_decoy_psi, tag_decoy_sigma,
         tag_role3, tag_time}
        \<union> (if has_key (entities inp) (u ''amount'')
           then {tag_entity_prefix @ u ''amount_mimic''} else {})
        \<union> (if has_key (entities inp) (u ''to_account'')
           then {tag_entity_prefix @ u ''account_mimic''} else {})"
    unfolding mf_def by (rule generate_mimic_fields_keys)
  have fixed: "has_key mf tag_intent" "has_key mf tag_entity" "has_key mf tag_protocol"
    "has_key mf tag_node" "has_key mf tag_decoy_psi" "has_key mf tag_decoy_sigma"
    "has_key mf tag_role3" "has_key mf tag_time"
    by (simp_all add: has_key_iff_keys k)
  have am: "has_key mf (tag_entity_prefix @ u ''amount_mimic'') \<longleftrightarrow>
            has_key (entities inp) (u ''amount'')"
    using mimic_tags_distinct by (simp add: has_key_iff_keys [of mf] k)
  have ac: "has_key mf (tag_entity_prefix @ u ''account_mimic'') \<longleftrightarrow>
            has_key (entities inp) (u ''to_account'')"
    using mimic_tags_distinct by (simp add: has_key_iff_keys [of mf] k)
  have "mimic_fields (fst (run_mimicus g inp)) = mf"
    by (simp add: mf_def mimic_fields_run_mimicus)
  then show ?thesis
    unfolding Let_def using fixed am ac k by simp
qed

text \<open>
  Claim C9, the sentence of the specification: an entities mapping whose only key is
  the account-like \<^verbatim>\<open>from_account\<close> yields the eight fixed tags and no \<^verbatim>\<open>_mimic\<close> tag,
  because the source tests the two literal keys \<^verbatim>\<open>amount\<close> and \<^verbatim>\<open>to_account\<close>.
\<close>

theorem generate_mimic_fields_from_account:
  "has_key [(u ''from_account'', u ''1559-6623-4401'')] (u ''from_account'') \<and>
   map fst (mimic_fields (fst (run_mimicus (\<lambda>i. 0)
     \<lparr>intent = u ''transfer'',
      entities = [(u ''from_account'', u ''1559-6623-4401'')],
      auth_grade = u ''Level-4'', time_issued = u ''2025-07-29T10:30:00Z'',
      exec_status = u ''queued''\<rparr>))) =
   [tag_intent, tag_entity, tag_protocol, tag_node, tag_decoy_psi, tag_decoy_sigma,
    tag_role3, tag_time] \<and>
   \<not> list_ex (suffix (u ''_mimic''))
     [tag_intent, tag_entity, tag_protocol, tag_node, tag_decoy_psi, tag_decoy_sigma,
      tag_role3, tag_time]"
  by (simp add: run_mimicus_def generate_mimic_fields_def randint_def choice_def draw_def
        has_key_def lit u_def suffix_def)

section \<open>Calibrator properties\<close>

lemma py_round_bounds:
  assumes "a \<le> x" "x \<le> b" "a * 10 ^ n = of_int A" "b * 10 ^ n = of_int B"
  shows "a \<le> py_round x n \<and> py_round x n \<le> b"
proof -
  define y where "y = x * 10 ^ n"
  define f where "f = \<lfloor>y\<rfloor>"
  define r where "r = (if y - of_int f < 1 / 2 then f
                 else if 1 / 2 < y - of_int f then f + 1
                 else if even f then f else f + 1)"
  have pr: "py_round x n = of_int r / 10 ^ n"
    by (simp add: py_round_def Let_def y_def f_def r_def)
  have pos: "(0::real) < 10 ^ n" by simp
  have "of_int A \<le> y" using assms(1,3) pos by (simp add: y_def flip: assms(3))
  then have Af: "A \<le> f" by (simp add: f_def le_floor_iff)
  have fr: "f \<le> r" by (simp add: r_def)
  have yB: "y \<le> of_int B" using assms(2,4) pos by (simp add: y_def flip: assms(4))
  have rB: "r \<le> B"
  proof (cases "y = of_int B")
    case True
    then have "f = B" by (simp add: f_def)
    then show ?thesis using True by (simp add: r_def)
  next
    case False
    then have "y < of_int B" using yB by simp
    then have "f < B" by (simp add: f_def floor_less_iff)
    then show ?thesis by (simp add: r_def)
  qed
  have "of_int A / 10 ^ n \<le> (of_int r :: real) / 10 ^ n"
    using Af fr pos by (simp add: divide_le_cancel)
  moreover have "(of_int r :: real) / 10 ^ n \<le> of_int B / 10 ^ n"
    using rB pos by (simp add: divide_le_cancel)
  moreover have "a = of_int A / 10 ^ n" using assms(3) pos by (simp add: field_simps)
  moreover have "b = of_int B / 10 ^ n" using assms(4) pos by (simp add: field_simps)
  ultimately show ?thesis by (simp add: pr)
qed

lemma py_round_grid: "\<exists>k::int. py_round x n = of_int k / 10 ^ n"
  unfolding py_round_def Let_def by blast

lemma u_neq_simps:
  "u ''entropy'' \<noteq> u ''cipher_strength''"
  "u ''entropy'' \<noteq> u ''role_decay''"
  "u ''cipher_strength'' \<noteq> u ''role_decay''"
  by (simp_all add: u_def)

text \<open>
  C7. The calibration mode is chosen by strict comparisons, the highest band first:
  above 0.7 emergency_recalibrate, above 0.5 aggressive_recalibrate, above 0.3
  recalibrate, above 0.1 fine_tune, otherwise maintain; the scores 0.1, 0.3, 0.5 and 0.7
  themselves fall in the lower band, and 0.71 is already an emergency.
\<close>

theorem determine_calibration_mode_bands:
  "(0.7 < s \<longrightarrow> determine_calibration_mode s = u ''emergency_recalibrate'') \<and>
   (0.5 < s \<and> s \<le> 0.7 \<longrightarrow> determine_calibration_mode s = u ''aggressive_recalibrate'') \<and>
   (0.3 < s \<and> s \<le> 0.5 \<longrightarrow> determine_calibration_mode s = u ''recalibrate'') \<and>
   (0.1 < s \<and> s \<le> 0.3 \<longrightarrow> determine_calibration_mode s = u ''fine_tune'') \<and>
   (s \<le> 0.1 \<longrightarrow> determine_calibration_mode s = u ''maintain'') \<and>
   determine_calibration_mode 0.1 = u ''maintain'' \<and>
   determine_calibration_mode 0.3 = u ''fine_tune'' \<and>
   determine_calibration_mode 0.5 = u ''recalibrate'' \<and>
   determine_calibration_mode 0.7 = u ''aggressive_recalibrate'' \<and>
   determine_calibration_mode 0.71 = u ''emergency_recalibrate''"
  by (simp add: determine_calibration_mode_def)

theorem determine_calibration_mode_bands_witness:
  "determine_calibration_mode 0.9 = u ''emergency_recalibrate'' \<and>
   determine_calibration_mode 0.6 = u ''aggressive_recalibrate'' \<and>
   determine_calibration_mode 0.4 = u ''recalibrate'' \<and>
   determine_calibration_mode 0.2 = u ''fine_tune'' \<and>
   determine_calibration_mode 0.05 = u ''maintain''"
  using determine_calibration_mode_bands [of "0.9"]
    determine_calibration_mode_bands [of "0.6"]
    determine_calibration_mode_bands [of "0.4"]
    determine_calibration_mode_bands [of "0.2"]
    determine_calibration_mode_bands [of "0.05"]
  by simp

text \<open>
  C8. Whatever the leakage score and the factor breakdown, the calibrator returns a
  parameter set (it has no failing path) with entropy in [0.1, 1.0], cipher_strength in
  [0.3, 1.0] and role_decay in [0.1, 1.0], each a multiple of 0.001.
\<close>

theorem calibrate_parameters_clamped:
  "\<exists>e c r. calibrate_parameters la =
       [u ''entropy'' \<mapsto> e, u ''cipher_strength'' \<mapsto> c, u ''role_decay'' \<mapsto> r] \<and>
     0.1 \<le> e \<and> e \<le> 1.0 \<and> 0.3 \<le> c \<and> c \<le> 1.0 \<and> 0.1 \<le> r \<and> r \<le> 1.0 \<and>
     (\<exists>k::int. e = of_int k / 1000) \<and>
     (\<exists>k::int. c = of_int k / 1000) \<and>
     (\<exists>k::int. r = of_int k / 1000)"
proof -
  obtain ne nc nr where cp: "calibrate_parameters la =
      [u ''entropy'' \<mapsto> py_round (max 0.1 (min 1.0 ne)) 3,
       u ''cipher_strength'' \<mapsto> py_round (max 0.3 (min 1.0 nc)) 3,
       u ''role_decay'' \<mapsto> py_round (max 0.1 (min 1.0 nr)) 3]"
  proof -
    have "\<exists>ne nc nr. calibrate_parameters la =
      [u ''entropy'' \<mapsto> py_round (max 0.1 (min 1.0 ne)) 3,
       u ''cipher_strength'' \<mapsto> py_round (max 0.3 (min 1.0 nc)) 3,
       u ''role_decay'' \<mapsto> py_round (max 0.1 (min 1.0 nr)) 3]"
      unfolding calibrate_parameters_def Let_def split_beta
      by (intro exI) (rule refl)
    then show ?thesis using that by blast
  qed
  define E where "E = py_round (max 0.1 (min 1.0 ne)) 3"
  define C where "C = py_round (max 0.3 (min 1.0 nc)) 3"
  define R where "R = py_round (max 0.1 (min 1.0 nr)) 3"
  have e: "0.1 \<le> E \<and> E \<le> 1.0"
    unfolding E_def by (rule py_round_bounds [where A = 100 and B = 1000]) simp_all
  have c: "0.3 \<le> C \<and> C \<le> 1.0"
    unfolding C_def by (rule py_round_bounds [where A = 300 and B = 1000]) simp_all
  have r: "0.1 \<le> R \<and> R \<le> 1.0"
    unfolding R_def by (rule py_round_bounds [where A = 100 and B = 1000]) simp_all
  obtain ke :: int where ke: "E = of_int ke / 1000"
    using py_round_grid [of "max 0.1 (min 1.0 ne)" 3] by (auto simp: E_def)
  obtain kc :: int where kc: "C = of_int kc / 1000"
    using py_round_grid [of "max 0.3 (min 1.0 nc)" 3] by (auto simp: C_def)
  obtain kr :: int where kr: "R = of_int kr / 1000"
    using py_round_grid [of "max 0.1 (min 1.0 nr)" 3] by (auto simp: R_def)
  show ?thesis
  proof (intro exI conjI)
    show "calibrate_parameters la =
        [u ''entropy'' \<mapsto> E, u ''cipher_strength'' \<mapsto> C, u ''role_decay'' \<mapsto> R]"
      unfolding E_def C_def R_def by (fact cp)
    show "0.1 \<le> E" "E \<le> 1.0" using e by blast+
    show "0.3 \<le> C" "C \<le> 1.0" using c by blast+
    show "0.1 \<le> R" "R \<le> 1.0" using r by blast+
    show "E = of_int ke / 1000" by (fact ke)
    show "C = of_int kc / 1000" by (fact kc)
    show "R = of_int kr / 1000" by (fact kr)
  qed
qed

end
